theory Spec2Isabelle
  imports Complex_Main
begin

section \<open>The analysis route of the AI visibility checker\<close>

text \<open>
  The route handler \<^verbatim>\<open>POST\<close> reads a JSON body, validates its \<^verbatim>\<open>url\<close>, fetches
  the page with axios, loads it into cheerio and scores it on ten criteria. This theory
  embeds the handler and its two helpers (\<^verbatim>\<open>countWords\<close>, \<^verbatim>\<open>calculateReadability\<close>).

  What the handler obtains from outside the repository is an explicit input of the model:
  the network (\<^verbatim>\<open>axios.get\<close>), the HTML parser (\<^verbatim>\<open>cheerio.load\<close> and the selector
  queries on its result), the URL parser (\<^verbatim>\<open>new URL\<close>), the date parser
  (\<^verbatim>\<open>new Date(string)\<close>) and the clock (\<^verbatim>\<open>new Date()\<close>).
\<close>

subsection \<open>Strings\<close>

text \<open>
  A JavaScript string is a sequence of UTF-16 code units. It is modelled as a \<^typ>\<open>string\<close>,
  one \<^typ>\<open>char\<close> for each code unit, which covers the code units below 256. The scoring
  rules look at no other character: they test for ASCII phrases, white space, the sentence
  marks and the double quote, and they count code units.
\<close>

fun startsWith :: "string \<Rightarrow> string \<Rightarrow> bool" where
  "startsWith s [] = True"
| "startsWith [] (p # ps) = False"
| "startsWith (c # cs) (p # ps) = (c = p \<and> startsWith cs ps)"

text \<open>\<^verbatim>\<open>s.includes(p)\<close>: \<open>p\<close> occurs in \<open>s\<close> as a contiguous substring.\<close>

fun str_includes :: "string \<Rightarrow> string \<Rightarrow> bool" where
  "str_includes [] p = (p = [])"
| "str_includes (c # cs) p = (startsWith (c # cs) p \<or> str_includes cs p)"

text \<open>The class \<^verbatim>\<open>\s\<close> of a regular expression, which is also what \<^verbatim>\<open>trim\<close> removes.\<close>

definition isSpace :: "char \<Rightarrow> bool" where
  "isSpace c = (c = CHR 0x09 \<or> c = CHR 0x0A \<or> c = CHR 0x0B \<or> c = CHR 0x0C \<or> c = CHR 0x0D
     \<or> c = CHR 0x20 \<or> c = CHR 0xA0)"

text \<open>The class \<^verbatim>\<open>[.!?]\<close>.\<close>

definition isSentenceEnd :: "char \<Rightarrow> bool" where
  "isSentenceEnd c = (c = CHR ''.'' \<or> c = CHR ''!'' \<or> c = CHR ''?'')"

definition trim :: "string \<Rightarrow> string" where
  "trim s = rev (dropWhile isSpace (rev (dropWhile isSpace s)))"

text \<open>
  \<^verbatim>\<open>s.split(/C+/)\<close> for a character class \<open>C\<close>: the pieces between the maximal runs of
  characters of the class. \<open>inrun\<close> says that the previous character belonged to a run,
  \<open>cur\<close> is the piece read so far.
\<close>

fun split_re :: "(char \<Rightarrow> bool) \<Rightarrow> bool \<Rightarrow> string \<Rightarrow> string \<Rightarrow> string list" where
  "split_re C inrun cur [] = [cur]"
| "split_re C inrun cur (c # cs) =
     (if C c then (if inrun then split_re C True cur cs else cur # split_re C True [] cs)
      else split_re C False (cur @ [c]) cs)"

definition str_split :: "(char \<Rightarrow> bool) \<Rightarrow> string \<Rightarrow> string list" where
  "str_split C s = split_re C False [] s"

definition lowerChar :: "char \<Rightarrow> char" where
  "lowerChar c =
     (let n = (of_char c :: nat)
      in if (65 \<le> n \<and> n \<le> 90) \<or> (192 \<le> n \<and> n \<le> 222 \<and> n \<noteq> 215) then char_of (n + 32) else c)"

definition toLowerCase :: "string \<Rightarrow> string" where
  "toLowerCase s = map lowerChar s"

text \<open>\<^verbatim>\<open>Number.prototype.toString\<close> on an integer: its decimal digits.\<close>

function nat_toString :: "nat \<Rightarrow> string" where
  "nat_toString n =
     (if n < 10 then [char_of (48 + n)]
      else nat_toString (n div 10) @ [char_of (48 + n mod 10)])"
  by pat_completeness auto
termination
  by (relation "measure id") auto

declare nat_toString.simps [simp del]

definition int_toString :: "int \<Rightarrow> string" where
  "int_toString i = (if i < 0 then ''-'' @ nat_toString (nat (- i)) else nat_toString (nat i))"

subsection \<open>Numbers\<close>

text \<open>
  Counts and scores are integers. The quotients the handler computes are JavaScript
  numbers: they are modelled by their exact real value, and by the three values a division
  by zero yields. IEEE rounding of a finite quotient is not modelled.
\<close>

datatype number = Fin real | PosInf | NegInf | NaN

text \<open>\<^verbatim>\<open>a / b\<close> for finite \<open>a\<close> and \<open>b\<close>.\<close>

definition div_num :: "real \<Rightarrow> real \<Rightarrow> number" where
  "div_num a b =
     (if b \<noteq> 0 then Fin (a / b)
      else if a = 0 then NaN else if 0 < a then PosInf else NegInf)"

text \<open>\<^verbatim>\<open>a - x\<close> for a finite \<open>a\<close>.\<close>

fun sub_num :: "real \<Rightarrow> number \<Rightarrow> number" where
  "sub_num a (Fin b) = Fin (a - b)"
| "sub_num a PosInf = NegInf"
| "sub_num a NegInf = PosInf"
| "sub_num a NaN = NaN"

text \<open>The comparisons with a finite right-hand side; every comparison with NaN is false.\<close>

fun le_num :: "number \<Rightarrow> real \<Rightarrow> bool" where
  "le_num (Fin a) b = (a \<le> b)"
| "le_num PosInf b = False"
| "le_num NegInf b = True"
| "le_num NaN b = False"

fun lt_num :: "number \<Rightarrow> real \<Rightarrow> bool" where
  "lt_num (Fin a) b = (a < b)"
| "lt_num PosInf b = False"
| "lt_num NegInf b = True"
| "lt_num NaN b = False"

fun ge_num :: "number \<Rightarrow> real \<Rightarrow> bool" where
  "ge_num (Fin a) b = (a \<ge> b)"
| "ge_num PosInf b = True"
| "ge_num NegInf b = False"
| "ge_num NaN b = False"

fun gt_num :: "number \<Rightarrow> real \<Rightarrow> bool" where
  "gt_num (Fin a) b = (a > b)"
| "gt_num PosInf b = True"
| "gt_num NegInf b = False"
| "gt_num NaN b = False"

subsection \<open>The two helpers\<close>

definition countWords :: "string \<Rightarrow> nat" where
  "countWords text = length (filter (\<lambda>word. length word > 0) (str_split isSpace (trim text)))"

definition calculateReadability :: "string \<Rightarrow> real" where
  "calculateReadability text =
     (let words = filter (\<lambda>word. length word > 0) (str_split isSpace (trim text));
          sentences = filter (\<lambda>sentence. length (trim sentence) > 0) (str_split isSentenceEnd text)
      in if length sentences = 0 \<or> length words = 0 then 0
         else
           let avgWordsPerSentence = real (length words) / real (length sentences);
               longWords = length (filter (\<lambda>word. length word > 6) words);
               percentLongWords = (real longWords / real (length words)) * 100;
               readabilityScore =
                 206835 / 1000 - (1015 / 1000) * avgWordsPerSentence
                   - (846 / 1000) * percentLongWords
           in min 100 (max 0 readabilityScore))"

subsection \<open>The parsed page and the result\<close>

text \<open>
  What the handler asks of the cheerio root \<^verbatim>\<open>$\<close>: \<^verbatim>\<open>$(sel).length\<close>,
  \<^verbatim>\<open>$(sel).text()\<close>, \<^verbatim>\<open>$(sel).attr(name)\<close> (\<open>None\<close> is \<^verbatim>\<open>undefined\<close>), and, for
  the callback of \<^verbatim>\<open>$(sel).filter\<close>, \<^verbatim>\<open>$(this).attr(name)\<close> for each element that
  \<open>sel\<close> selects, in document order.
\<close>

record cheerio =
  sel_length :: "string \<Rightarrow> nat"
  sel_text :: "string \<Rightarrow> string"
  sel_attr :: "string \<Rightarrow> string \<Rightarrow> string option"
  sel_each_attr :: "string \<Rightarrow> string \<Rightarrow> string option list"

text \<open>Truthiness of a string or \<^verbatim>\<open>undefined\<close>, \<^verbatim>\<open>a || b\<close>, and \<^verbatim>\<open>a || "literal"\<close>.\<close>

definition truthy_str :: "string option \<Rightarrow> bool" where
  "truthy_str v = (case v of None \<Rightarrow> False | Some s \<Rightarrow> s \<noteq> [])"

definition or_else :: "string option \<Rightarrow> string option \<Rightarrow> string option" where
  "or_else a b = (if truthy_str a then a else b)"

definition or_str :: "string option \<Rightarrow> string \<Rightarrow> string" where
  "or_str a d = (case a of None \<Rightarrow> d | Some s \<Rightarrow> if s \<noteq> [] then s else d)"

record CriteriaScore =
  score :: int
  max' :: int
  details :: "string list"

record criteria =
  "structure" :: CriteriaScore
  author :: CriteriaScore
  metadata :: CriteriaScore
  "keywords" :: CriteriaScore
  tone :: CriteriaScore
  credibility :: CriteriaScore
  readability :: CriteriaScore
  freshness :: CriteriaScore
  comprehensiveness :: CriteriaScore
  citations :: CriteriaScore

text \<open>
  The two marks that start a finding, U+2713 and U+2717, written as their UTF-8 bytes.
\<close>

definition tick :: string where
  "tick = [CHR 0xE2, CHR 0x9C, CHR 0x93]"

definition cross :: string where
  "cross = [CHR 0xE2, CHR 0x9C, CHR 0x97]"

text \<open>
  \<^verbatim>\<open>c.score += n; c.details.push(d)\<close> and \<^verbatim>\<open>c.details.push(d)\<close> on one criterion.
\<close>

definition add_score :: "int \<Rightarrow> string \<Rightarrow> CriteriaScore \<Rightarrow> CriteriaScore" where
  "add_score n d c = c\<lparr>score := score c + n, details := details c @ [d]\<rparr>"

definition push_detail :: "string \<Rightarrow> CriteriaScore \<Rightarrow> CriteriaScore" where
  "push_detail d c = c\<lparr>details := details c @ [d]\<rparr>"

text \<open>\<^verbatim>\<open>list.filter((k) => text.includes(k)).length\<close> and \<^verbatim>\<open>list.some(...)\<close>.\<close>

definition count_included :: "string \<Rightarrow> string list \<Rightarrow> nat" where
  "count_included text ks = length (filter (\<lambda>keyword. str_includes text keyword) ks)"

definition some_included :: "string \<Rightarrow> string list \<Rightarrow> bool" where
  "some_included text ks = list_ex (\<lambda>keyword. str_includes text keyword) ks"

subsection \<open>1. Structure analysis (10 points)\<close>

definition structureAnalysis :: "cheerio \<Rightarrow> string \<Rightarrow> string \<Rightarrow> CriteriaScore" where
  "structureAnalysis page text data =
     (let headings = sel_length page ''h1, h2, h3, h4, h5, h6'';
          lists = sel_length page ''ul, ol'';
          paragraphs = sel_length page ''p'';
          tableOfContents =
            (str_includes text ''table of contents'' \<or> str_includes text ''contents'');
          c0 = \<lparr>score = 0, max' = 10, details = []\<rparr>;
          c1 = (if headings \<ge> 3
                then add_score 3 (tick @ '' Good heading structure (3+ headings)'') c0
                else push_detail (cross @ '' Limited heading structure'') c0);
          c2 = (if lists \<ge> 2
                then add_score 2 (tick @ '' Contains lists/bullet points'') c1
                else push_detail (cross @ '' No lists or bullet points found'') c1);
          c3 = (if paragraphs \<ge> 5
                then add_score 2 (tick @ '' Well-structured paragraphs'') c2
                else push_detail (cross @ '' Limited paragraph structure'') c2);
          c4 = (if tableOfContents
                then add_score 2 (tick @ '' Table of contents present'') c3
                else push_detail (cross @ '' No table of contents'') c3)
      in if length data > 2000
         then add_score 1 (tick @ '' Substantial content length'') c4
         else push_detail (cross @ '' Content appears too short'') c4)"

subsection \<open>2. Author analysis (8 points)\<close>

definition authorSelectors :: "string list" where
  \<open>authorSelectors =
     [''author'', ''byline'', ''writer'', ''by-author'', ''post-author'', ''[rel="author"]'',
      ''.author'', ''#author'', ''[class*="author"]'']\<close>

definition authorKeywords :: "string list" where
  "authorKeywords = [''written by'', ''author:'', ''by '', ''published by'']"

definition bioKeywords :: "string list" where
  "bioKeywords = [''bio'', ''about the author'', ''profile'', ''credentials'']"

definition expertiseKeywords :: "string list" where
  "expertiseKeywords =
     [''expert'', ''specialist'', ''phd'', ''professor'', ''researcher'', ''years of experience'']"

definition authorAnalysis :: "cheerio \<Rightarrow> string \<Rightarrow> CriteriaScore" where
  "authorAnalysis page text =
     (let authorFound = list_ex (\<lambda>selector. sel_length page selector > 0) authorSelectors;
          hasAuthorKeywords = some_included text authorKeywords;
          c0 = \<lparr>score = 0, max' = 8, details = []\<rparr>;
          c1 = (if authorFound \<or> hasAuthorKeywords
                then add_score 4 (tick @ '' Author information present'') c0
                else push_detail (cross @ '' No clear author attribution'') c0);
          hasBio = some_included text bioKeywords;
          c2 = (if hasBio
                then add_score 2 (tick @ '' Author bio/credentials found'') c1
                else push_detail (cross @ '' No author bio or credentials'') c1);
          hasExpertise = some_included text expertiseKeywords
      in if hasExpertise
         then add_score 2 (tick @ '' Expertise indicators found'') c2
         else push_detail (cross @ '' No clear expertise indicators'') c2)"

subsection \<open>3. Metadata analysis (8 points)\<close>

definition meta_description :: "cheerio \<Rightarrow> string" where
  \<open>meta_description page = or_str (sel_attr page ''meta[name="description"]'' ''content'') []\<close>

definition publishDate_of :: "cheerio \<Rightarrow> string option" where
  \<open>publishDate_of page =
     or_else (sel_attr page ''meta[property="article:published_time"]'' ''content'')
       (or_else (sel_attr page ''meta[name="date"]'' ''content'')
          (sel_attr page ''time'' ''datetime''))\<close>

definition metadataAnalysis :: "cheerio \<Rightarrow> string \<Rightarrow> CriteriaScore" where
  "metadataAnalysis page html =
     (let title = sel_text page ''title'';
          description = meta_description page;
          c0 = \<lparr>score = 0, max' = 8, details = []\<rparr>;
          c1 = (if title \<noteq> [] \<and> length title > 10
                then add_score 2 (tick @ '' Descriptive title present'') c0
                else push_detail (cross @ '' Missing or poor title'') c0);
          c2 = (if description \<noteq> [] \<and> length description > 50
                then add_score 3 (tick @ '' Good meta description'') c1
                else push_detail (cross @ '' Missing or poor meta description'') c1);
          c3 = (if truthy_str (publishDate_of page)
                then add_score 2 (tick @ '' Publication date found'') c2
                else push_detail (cross @ '' No publication date'') c2);
          hasSchema =
            (str_includes html ''schema.org'' \<or> str_includes html ''application/ld+json'')
      in if hasSchema
         then add_score 1 (tick @ '' Structured data present'') c3
         else push_detail (cross @ '' No structured data'') c3)"

subsection \<open>4. Keywords analysis (8 points)\<close>

definition aiKeywords :: "string list" where
  "aiKeywords =
     [''artificial intelligence'', ''ai'', ''machine learning'', ''chatgpt'', ''gpt'', ''openai'',
      ''gemini'', ''claude'', ''llm'', ''large language model'', ''deep learning'',
      ''neural network'', ''automation'', ''algorithm'']"

definition techKeywords :: "string list" where
  "techKeywords =
     [''technology'', ''software'', ''programming'', ''development'', ''coding'',
      ''data science'', ''analytics'', ''digital'', ''innovation'', ''tech'']"

definition topicalKeywords :: "string list" where
  "topicalKeywords =
     [''how to'', ''guide'', ''tutorial'', ''tips'', ''best practices'', ''explained'']"

definition keywordsAnalysis :: "string \<Rightarrow> CriteriaScore" where
  "keywordsAnalysis text =
     (let aiKeywordCount = count_included text aiKeywords;
          techKeywordCount = count_included text techKeywords;
          c0 = \<lparr>score = 0, max' = 8, details = []\<rparr>;
          c1 = (if aiKeywordCount \<ge> 3
                then add_score 4 (tick @ '' Rich AI-related keywords'') c0
                else if aiKeywordCount \<ge> 1
                then add_score 2 (tick @ '' Some AI-related keywords'') c0
                else push_detail (cross @ '' No AI-related keywords'') c0);
          c2 = (if techKeywordCount \<ge> 3
                then add_score 2 (tick @ '' Technology keywords present'') c1
                else push_detail (cross @ '' Limited technology keywords'') c1);
          hasTopicalKeywords = some_included text topicalKeywords
      in if hasTopicalKeywords
         then add_score 2 (tick @ '' Educational/informational keywords'') c2
         else push_detail (cross @ '' No educational keywords'') c2)"

subsection \<open>5. Tone analysis (6 points)\<close>

definition salesyWords :: "string list" where
  "salesyWords =
     [''buy now'', ''purchase'', ''sale'', ''discount'', ''limited time'', ''act now'',
      ''special offer'', ''deal'', ''price'', ''$'', ''order now'', ''subscribe now'']"

definition neutralWords :: "string list" where
  "neutralWords =
     [''according to'', ''research shows'', ''studies indicate'', ''experts say'',
      ''analysis reveals'', ''data suggests'', ''findings show'', ''evidence'']"

definition toneAnalysis :: "string \<Rightarrow> CriteriaScore" where
  "toneAnalysis text =
     (let salesyCount = count_included text salesyWords;
          neutralCount = count_included text neutralWords;
          c0 = \<lparr>score = 0, max' = 6, details = []\<rparr>;
          c1 = (if salesyCount \<le> 2
                then add_score 3 (tick @ '' Non-promotional tone'') c0
                else push_detail (cross @ '' Overly promotional language'') c0)
      in if neutralCount \<ge> 2
         then add_score 3 (tick @ '' Objective, research-based tone'') c1
         else push_detail (cross @ '' Limited objective language'') c1)"

subsection \<open>6. Credibility analysis (15 points)\<close>

definition citationPatterns :: "string list" where
  "citationPatterns =
     [''according to'', ''cited in'', ''reference'', ''source'', ''study'', ''research'',
      ''published in'', ''journal'']"

definition statsPatterns :: "string list" where
  "statsPatterns = [''%'', ''percent'', ''statistics'', ''data shows'', ''survey'', ''study found'']"

definition academicSignals :: "string list" where
  "academicSignals =
     [''university'', ''institute'', ''research center'', ''laboratory'', ''academic'', ''study'',
      ''paper'', ''journal'']"

definition factCheckingSignals :: "string list" where
  "factCheckingSignals = [''fact'', ''verified'', ''evidence-based'', ''proven'', ''confirmed'']"

definition credibilityAnalysis :: "string \<Rightarrow> CriteriaScore" where
  "credibilityAnalysis text =
     (let citationCount = count_included text citationPatterns;
          c0 = \<lparr>score = 0, max' = 15, details = []\<rparr>;
          c1 = (if citationCount \<ge> 3
                then add_score 4 (tick @ '' Multiple references to external sources'') c0
                else if citationCount \<ge> 1
                then add_score 2 (tick @ '' Some references to external sources'') c0
                else push_detail (cross @ '' No references to external sources'') c0);
          statsCount = count_included text statsPatterns;
          c2 = (if statsCount \<ge> 3
                then add_score 4 (tick @ '' Contains statistics and data'') c1
                else if statsCount \<ge> 1
                then add_score 2 (tick @ '' Some statistics or data'') c1
                else push_detail (cross @ '' No statistics or data'') c1);
          academicCount = count_included text academicSignals;
          c3 = (if academicCount \<ge> 2
                then add_score 4 (tick @ '' Strong academic/institutional signals'') c2
                else if academicCount \<ge> 1
                then add_score 2 (tick @ '' Some academic/institutional signals'') c2
                else push_detail (cross @ '' No academic/institutional signals'') c2);
          factCheckCount = count_included text factCheckingSignals
      in if factCheckCount \<ge> 2
         then add_score 3 (tick @ '' Contains fact-checking signals'') c3
         else push_detail (cross @ '' No fact-checking signals'') c3)"

subsection \<open>7. Readability analysis (15 points)\<close>

definition transitionWords :: "string list" where
  "transitionWords =
     [''however'', ''therefore'', ''furthermore'', ''moreover'', ''consequently'',
      ''additionally'', ''in addition'', ''for example'', ''for instance'', ''in conclusion'']"

definition passiveVoiceMarkers :: "string list" where
  "passiveVoiceMarkers = ['' is '', '' are '', '' was '', '' were '', '' be '', '' been '', '' by '']"

text \<open>
  \<open>avgSentenceLength\<close> and \<open>activeVoiceRatio\<close> are quotients whose divisor can be zero, so
  they are \<^typ>\<open>number\<close>s.
\<close>

definition readabilityAnalysis :: "string \<Rightarrow> string \<Rightarrow> CriteriaScore" where
  "readabilityAnalysis plainText text =
     (let readabilityScore = calculateReadability plainText;
          wordCount = countWords plainText;
          sentenceCount =
            length (filter (\<lambda>s. length (trim s) > 0) (str_split isSentenceEnd plainText));
          avgSentenceLength = div_num (real wordCount) (real sentenceCount);
          c0 = \<lparr>score = 0, max' = 15, details = []\<rparr>;
          c1 = (if readabilityScore \<ge> 60 \<and> readabilityScore \<le> 70
                then add_score 6 (tick @ '' Optimal readability level (8th-9th grade)'') c0
                else if readabilityScore \<ge> 50 \<and> readabilityScore < 60
                then add_score 4 (tick @ '' Good readability level (10th-12th grade)'') c0
                else if readabilityScore > 70
                then add_score 3 (tick @ '' Very simple readability (may lack depth)'') c0
                else add_score 1 (cross @ '' Complex readability (college level or higher)'') c0);
          c2 = (if ge_num avgSentenceLength 10 \<and> le_num avgSentenceLength 20
                then add_score 3 (tick @ '' Optimal average sentence length'') c1
                else if lt_num avgSentenceLength 10
                then add_score 1 (cross @ '' Sentences may be too short'') c1
                else add_score 1 (cross @ '' Sentences may be too long'') c1);
          transitionCount = count_included text transitionWords;
          c3 = (if transitionCount \<ge> 3
                then add_score 3 (tick @ '' Good use of transition words'') c2
                else if transitionCount \<ge> 1
                then add_score 1 (tick @ '' Some transition words present'') c2
                else push_detail (cross @ '' No transition words found'') c2);
          passiveVoicePatterns = count_included text passiveVoiceMarkers;
          activeVoiceRatio =
            sub_num 1 (div_num (real passiveVoicePatterns) (real wordCount / 10))
      in if gt_num activeVoiceRatio (7 / 10)
         then add_score 3 (tick @ '' Primarily active voice'') c3
         else if gt_num activeVoiceRatio (5 / 10)
         then add_score 2 (tick @ '' Mix of active and passive voice'') c3
         else push_detail (cross @ '' Excessive passive voice'') c3)"

subsection \<open>8. Freshness analysis (10 points)\<close>

text \<open>
  The clock and the date parser. \<open>Date_parse s\<close> is the time value of \<^verbatim>\<open>new Date(s)\<close> in
  milliseconds, \<open>None\<close> for an invalid date (whose \<^verbatim>\<open>getTime()\<close> is NaN). \<open>now_time\<close> is
  \<^verbatim>\<open>new Date().getTime()\<close> and \<open>now_year\<close> is \<^verbatim>\<open>new Date().getFullYear()\<close>, the year
  in the server's time zone.
\<close>

record clock =
  Date_parse :: "string \<Rightarrow> int option"
  now_time :: int
  now_year :: int

definition recencySignals :: "string list" where
  "recencySignals =
     [''recent'', ''latest'', ''new'', ''update'', ''current'', ''today'', ''this month'',
      ''this year'']"

text \<open>\<open>monthsAgo\<close> for a truthy \<open>publishDate\<close>; NaN when the date is invalid.\<close>

definition monthsAgo :: "clock \<Rightarrow> string \<Rightarrow> number" where
  "monthsAgo clk publishDate =
     (case Date_parse clk publishDate of
        None \<Rightarrow> NaN
      | Some pubDate \<Rightarrow> Fin (real_of_int (now_time clk - pubDate) / (1000 * 60 * 60 * 24 * 30)))"

text \<open>
  The first block: \<open>(dateScore, dateFound)\<close> after looking at \<open>publishDate\<close>.
\<close>

definition dateFromMeta :: "clock \<Rightarrow> string option \<Rightarrow> int \<times> bool" where
  "dateFromMeta clk publishDate =
     (case publishDate of
        None \<Rightarrow> (0, False)
      | Some d \<Rightarrow>
          if d = [] then (0, False)
          else
            let m = monthsAgo clk d
            in (if le_num m 1 then 10
                else if le_num m 3 then 8
                else if le_num m 6 then 6
                else if le_num m 12 then 4
                else if le_num m 24 then 2
                else 0, True))"

text \<open>
  The second block: the years in the text, looked at only when no date was found.
\<close>

definition dateFromText :: "clock \<Rightarrow> string \<Rightarrow> int \<times> bool \<Rightarrow> int \<times> bool" where
  "dateFromText clk text st =
     (case st of (dateScore, dateFound) \<Rightarrow>
        if \<not> dateFound then
          let currentYear = now_year clk;
              lastYear = currentYear - 1
          in if str_includes text (int_toString currentYear) then (6, True)
             else if str_includes text (int_toString lastYear) then (4, True)
             else (dateScore, dateFound)
        else (dateScore, dateFound))"

definition freshnessAnalysis :: "clock \<Rightarrow> string option \<Rightarrow> string \<Rightarrow> CriteriaScore" where
  "freshnessAnalysis clk publishDate text =
     (case dateFromText clk text (dateFromMeta clk publishDate) of (dateScore0, dateFound) \<Rightarrow>
        let recencyCount = count_included text recencySignals;
            c0 = \<lparr>score = 0, max' = 10, details = []\<rparr>;
            dateScore = (if recencyCount \<ge> 2 then min 10 (dateScore0 + 2) else dateScore0);
            c1 = (if recencyCount \<ge> 2
                  then push_detail (tick @ '' Contains recency signals'') c0 else c0);
            c2 = c1\<lparr>score := dateScore\<rparr>
        in if dateFound then
             (if dateScore \<ge> 8
              then push_detail (tick @ '' Very recent content (within 3 months)'') c2
              else if dateScore \<ge> 4
              then push_detail (tick @ '' Relatively recent content (within a year)'') c2
              else push_detail (cross @ '' Content may be outdated'') c2)
           else push_detail (cross @ '' No clear publication date found'') c2)"

subsection \<open>9. Comprehensiveness analysis (10 points)\<close>

definition comprehensiveSignals :: "string list" where
  "comprehensiveSignals =
     [''complete'', ''comprehensive'', ''in-depth'', ''detailed'', ''thorough'', ''ultimate guide'',
      ''everything you need to know'']"

definition perspectiveSignals :: "string list" where
  "perspectiveSignals =
     [''on the other hand'', ''alternatively'', ''however'', ''in contrast'',
      ''different perspective'', ''another view'', ''pros and cons'',
      ''advantages and disadvantages'']"

definition exampleSignals :: "string list" where
  "exampleSignals =
     [''example'', ''case study'', ''instance'', ''for instance'', ''such as'', ''e.g.'']"

definition comprehensivenessAnalysis :: "nat \<Rightarrow> string \<Rightarrow> CriteriaScore" where
  "comprehensivenessAnalysis wordCount text =
     (let c0 = \<lparr>score = 0, max' = 10, details = []\<rparr>;
          c1 = (if wordCount \<ge> 1500
                then add_score 4 (tick @ '' In-depth content (1500+ words)'') c0
                else if wordCount \<ge> 800
                then add_score 3 (tick @ '' Substantial content (800+ words)'') c0
                else if wordCount \<ge> 400
                then add_score 2 (tick @ '' Moderate content length (400+ words)'') c0
                else push_detail (cross @ '' Content may be too brief'') c0);
          comprehensiveCount = count_included text comprehensiveSignals;
          c2 = (if comprehensiveCount \<ge> 1
                then add_score 2 (tick @ '' Claims to be comprehensive'') c1 else c1);
          perspectiveCount = count_included text perspectiveSignals;
          c3 = (if perspectiveCount \<ge> 2
                then add_score 2 (tick @ '' Presents multiple perspectives'') c2
                else push_detail (cross @ '' May present limited perspective'') c2);
          exampleCount = count_included text exampleSignals
      in if exampleCount \<ge> 2
         then add_score 2 (tick @ '' Includes examples or case studies'') c3
         else push_detail (cross @ '' Limited examples or illustrations'') c3)"

subsection \<open>10. Citations analysis (10 points)\<close>

definition formalCitationPatterns :: "string list" where
  "formalCitationPatterns =
     [''et al'', ''cited in'', ''reference'', ''bibliography'', ''works cited'', ''references'',
      ''citation'']"

text \<open>
  \<open>externalLinks\<close>: of the elements that \<^verbatim>\<open>a[href^='http']\<close> selects, those whose
  \<^verbatim>\<open>href\<close> does not contain the requested URL as a substring.
\<close>

definition externalLinks :: "cheerio \<Rightarrow> string \<Rightarrow> nat" where
  "externalLinks page url =
     length (filter (\<lambda>this. let href = or_str this [] in \<not> str_includes href url)
       (sel_each_attr page ''a[href^='http']'' ''href''))"

text \<open>\<^verbatim>\<open>(text.match(/"/g) || []).length\<close>: the number of double quotes in the text.\<close>

definition quote_matches :: "string \<Rightarrow> nat" where
  "quote_matches text = length (filter (\<lambda>c. c = CHR 0x22) text)"

definition citationsAnalysis :: "cheerio \<Rightarrow> string \<Rightarrow> string \<Rightarrow> CriteriaScore" where
  "citationsAnalysis page url text =
     (let c0 = \<lparr>score = 0, max' = 10, details = []\<rparr>;
          c1 = (if externalLinks page url \<ge> 5
                then add_score 4 (tick @ '' Multiple external links (5+)'') c0
                else if externalLinks page url \<ge> 2
                then add_score 2 (tick @ '' Some external links'') c0
                else push_detail (cross @ '' Few or no external links'') c0);
          formalCitationCount = count_included text formalCitationPatterns;
          c2 = (if formalCitationCount \<ge> 2
                then add_score 3 (tick @ '' Formal citations present'') c1
                else push_detail (cross @ '' No formal citations'') c1);
          quoteCount = real (quote_matches text) / 2
      in if quoteCount \<ge> 3
         then add_score 3 (tick @ '' Multiple quoted sources'') c2
         else if quoteCount \<ge> 1
         then add_score 1 (tick @ '' Some quoted content'') c2
         else push_detail (cross @ '' No quoted sources'') c2)"

subsection \<open>Aggregation and recommendations\<close>

text \<open>A value that \<^verbatim>\<open>JSON.parse\<close> returns, and \<^verbatim>\<open>undefined\<close> for an absent property.\<close>

datatype jsval =
  Undefined | Null | Bool bool | Num real | Str string | Arr "jsval list"
| Obj "(string \<times> jsval) list"

record AnalysisResult =
  url :: jsval
  totalScore :: int
  maxScore :: int
  percentage :: real
  criteria :: criteria
  recommendations :: "string list"
  researchInsights :: "string list"

definition researchInsights0 :: "string list" where
  "researchInsights0 =
     [''AI systems like ChatGPT prefer to cite content with clear authorship and expertise signals'',
      ''Content with factual statements, statistics, and research citations is more likely to be referenced'',
      ''Well-structured content with clear headings and organization is prioritized by AI systems'',
      ''Recent and up-to-date information is more likely to be cited than outdated content'',
      ''Content from domains with established authority receives preferential treatment in AI citations'',
      ''Educational and informational content is cited more frequently than promotional material'',
      ''Content with neutral, objective tone is preferred over opinionated or biased writing'']"

text \<open>\<^verbatim>\<open>Object.values(analysis.criteria)\<close>: the ten criteria in the order of their keys.\<close>

definition values_of :: "criteria \<Rightarrow> CriteriaScore list" where
  "values_of cr =
     [structure cr, author cr, metadata cr, keywords cr, tone cr, credibility cr,
      readability cr, freshness cr, comprehensiveness cr, citations cr]"

definition sum_scores :: "criteria \<Rightarrow> int" where
  "sum_scores cr = foldl (\<lambda>sum c. sum + score c) 0 (values_of cr)"

definition structureAdvice :: string where
  "structureAdvice =
     ''Add more headings, lists, and a table of contents to improve content structure''"

definition authorAdvice :: string where
  "authorAdvice = ''Include clear author attribution, credentials, and expertise signals''"

definition metadataAdvice :: string where
  "metadataAdvice =
     ''Improve meta description, add publication date, and implement schema markup''"

definition keywordsAdvice :: string where
  "keywordsAdvice = ''Include more relevant AI and technology keywords''"

definition toneAdvice :: string where
  "toneAdvice = ''Use more neutral, research-based language and reduce promotional content''"

definition credibilityAdvice :: string where
  "credibilityAdvice =
     ''Add references to research, statistics, and academic sources to boost credibility''"

definition readabilityAdvice :: string where
  "readabilityAdvice =
     ''Improve readability by using shorter sentences, active voice, and transition words''"

definition freshnessAdvice :: string where
  "freshnessAdvice =
     ''Update content with current information and clearly display publication date''"

definition comprehensivenessAdvice :: string where
  "comprehensivenessAdvice =
     ''Expand content depth with more examples, multiple perspectives, and detailed coverage''"

definition citationsAdvice :: string where
  "citationsAdvice = ''Add more external links, formal citations, and quoted sources''"

text \<open>\<^verbatim>\<open>if (b) { recommendations.push(s) }\<close>.\<close>

definition push_if :: "bool \<Rightarrow> string \<Rightarrow> string list \<Rightarrow> string list" where
  "push_if b s rs = (if b then rs @ [s] else rs)"

definition generateRecommendations :: "criteria \<Rightarrow> string list" where
  "generateRecommendations cr =
     (let r1 = push_if (score (structure cr) < 7) structureAdvice [];
          r2 = push_if (score (author cr) < 5) authorAdvice r1;
          r3 = push_if (score (metadata cr) < 5) metadataAdvice r2;
          r4 = push_if (score (keywords cr) < 5) keywordsAdvice r3;
          r5 = push_if (score (tone cr) < 4) toneAdvice r4;
          r6 = push_if (score (credibility cr) < 8) credibilityAdvice r5;
          r7 = push_if (score (readability cr) < 8) readabilityAdvice r6;
          r8 = push_if (score (freshness cr) < 5) freshnessAdvice r7;
          r9 = push_if (score (comprehensiveness cr) < 5) comprehensivenessAdvice r8
      in push_if (score (citations cr) < 5) citationsAdvice r9)"

subsection \<open>The analysis of a fetched page\<close>

text \<open>
  The body of the handler from \<^verbatim>\<open>cheerio.load\<close> to the result. \<open>load\<close> is
  \<^verbatim>\<open>cheerio.load\<close>, \<open>url_val\<close> is the value of the request and \<open>url_str\<close> the string it
  converts to, which is what \<^verbatim>\<open>href.includes(url)\<close> searches for, and \<open>data\<close> is
  \<^verbatim>\<open>response.data\<close>.
\<close>

definition evaluate :: "clock \<Rightarrow> cheerio \<Rightarrow> string \<Rightarrow> string \<Rightarrow> criteria" where
  "evaluate clk page url_str data =
     (let text = toLowerCase (sel_text page ''body'');
          html = toLowerCase data;
          plainText = sel_text page ''body''
      in \<lparr>structure = structureAnalysis page text data,
          author = authorAnalysis page text,
          metadata = metadataAnalysis page html,
          keywords = keywordsAnalysis text,
          tone = toneAnalysis text,
          credibility = credibilityAnalysis text,
          readability = readabilityAnalysis plainText text,
          freshness = freshnessAnalysis clk (publishDate_of page) text,
          comprehensiveness = comprehensivenessAnalysis (countWords plainText) text,
          citations = citationsAnalysis page url_str text\<rparr>)"

definition analyze ::
  "clock \<Rightarrow> (string \<Rightarrow> cheerio) \<Rightarrow> jsval \<Rightarrow> string \<Rightarrow> string \<Rightarrow> AnalysisResult" where
  "analyze clk load url_val url_str data =
     (let cr = evaluate clk (load data) url_str data;
          total = sum_scores cr
      in \<lparr>url = url_val,
          totalScore = total,
          maxScore = 100,
          percentage = (real_of_int total / real_of_int 100) * 100,
          criteria = cr,
          recommendations = generateRecommendations cr,
          researchInsights = researchInsights0\<rparr>)"

subsection \<open>The handler\<close>

text \<open>
  The runtime of the handler. \<open>JSON_parse\<close> is the parser behind \<^verbatim>\<open>request.json()\<close>
  (\<open>None\<close>: it throws), \<open>ToString\<close> the conversion of a value that is not a string to a
  string, \<open>URL_ok s\<close> says that \<^verbatim>\<open>new URL(s)\<close> returns, and \<open>axios_get s\<close> is the
  outcome of the request: \<open>None\<close> when \<^verbatim>\<open>axios.get\<close> throws (network error, timeout,
  a status that is not a success), else \<^verbatim>\<open>response.data\<close>, which is a string unless
  axios decoded it (a JSON response).
\<close>

datatype response_data = StringData string | DecodedData

record env =
  JSON_parse :: "string \<Rightarrow> jsval option"
  ToString :: "jsval \<Rightarrow> string"
  URL_ok :: "string \<Rightarrow> bool"
  axios_get :: "string \<Rightarrow> response_data option"
  cheerio_load :: "string \<Rightarrow> cheerio"
  clock :: clock

text \<open>\<^verbatim>\<open>NextResponse.json(body, { status })\<close>; the status is 200 when none is given.\<close>

datatype response = Json_result AnalysisResult | Json_error string nat

definition status :: "response \<Rightarrow> nat" where
  "status r = (case r of Json_result a \<Rightarrow> 200 | Json_error e s \<Rightarrow> s)"

text \<open>
  What a call of the handler does: the response it returns, and the URLs it asked
  \<^verbatim>\<open>axios.get\<close> for, in order.
\<close>

record outcome =
  response :: response
  fetched :: "string list"

text \<open>
  \<^verbatim>\<open>await request.json()\<close>: the empty text is not JSON, whatever the parser.
\<close>

definition request_json :: "env \<Rightarrow> string \<Rightarrow> jsval option" where
  "request_json env body = (if body = [] then None else JSON_parse env body)"

text \<open>
  \<^verbatim>\<open>const { url } = v\<close>: \<open>None\<close> is the TypeError of destructuring \<^verbatim>\<open>null\<close>. In an
  object the last of several equal keys counts; on any other value the property is
  \<^verbatim>\<open>undefined\<close>.
\<close>

definition destructure_url :: "jsval \<Rightarrow> jsval option" where
  "destructure_url v =
     (case v of
        Null \<Rightarrow> None
      | Undefined \<Rightarrow> None
      | Obj kvs \<Rightarrow> (case map_of (rev kvs) ''url'' of None \<Rightarrow> Some Undefined | Some u \<Rightarrow> Some u)
      | _ \<Rightarrow> Some Undefined)"

fun truthy :: "jsval \<Rightarrow> bool" where
  "truthy Undefined = False"
| "truthy Null = False"
| "truthy (Bool b) = b"
| "truthy (Num n) = (n \<noteq> 0)"
| "truthy (Str s) = (s \<noteq> [])"
| "truthy (Arr vs) = True"
| "truthy (Obj kvs) = True"

definition url_string :: "env \<Rightarrow> jsval \<Rightarrow> string" where
  "url_string env u = (case u of Str s \<Rightarrow> s | _ \<Rightarrow> ToString env u)"

text \<open>
  The response of the outer \<^verbatim>\<open>catch\<close>, which every exception reaches. The
  \<^verbatim>\<open>catch\<close> also writes the exception to the console; the log is not part of the
  model, and neither are the timeout and the headers that \<^verbatim>\<open>axios.get\<close> is given.
\<close>

definition analysis_failed :: response where
  "analysis_failed =
     Json_error ''Failed to analyze the webpage. Please check the URL and try again.'' 500"

definition POST :: "env \<Rightarrow> string \<Rightarrow> outcome" where
  "POST env body =
     (case request_json env body of
        None \<Rightarrow> \<lparr>response = analysis_failed, fetched = []\<rparr>
      | Some v \<Rightarrow>
          (case destructure_url v of
             None \<Rightarrow> \<lparr>response = analysis_failed, fetched = []\<rparr>
           | Some url_val \<Rightarrow>
               if \<not> truthy url_val
               then \<lparr>response = Json_error ''URL is required'' 400, fetched = []\<rparr>
               else if \<not> URL_ok env (url_string env url_val)
               then \<lparr>response = Json_error ''Invalid URL format'' 400, fetched = []\<rparr>
               else
                 (case axios_get env (url_string env url_val) of
                    None \<Rightarrow> \<lparr>response = analysis_failed, fetched = [url_string env url_val]\<rparr>
                  | Some DecodedData \<Rightarrow>
                      \<lparr>response = analysis_failed, fetched = [url_string env url_val]\<rparr>
                  | Some (StringData data) \<Rightarrow>
                      \<lparr>response =
                         Json_result
                           (analyze (clock env) (cheerio_load env) url_val (url_string env url_val) data),
                       fetched = [url_string env url_val]\<rparr>)))"

subsection \<open>The claim about cross-host links, in the words of the specification\<close>

text \<open>
  The specification speaks of outbound links whose host differs from the origin of the
  analysed page. \<open>spec_host\<close> is the host of an absolute URL without user information: what
  stands between \<^verbatim>\<open>://\<close> and the next \<^verbatim>\<open>/\<close>, \<^verbatim>\<open>?\<close> or \<^verbatim>\<open>#\<close>.
  \<open>spec_crossHostLinks\<close> counts the links of a page by that rule. Neither is part of the
  handler; they state the specification's rule, to compare \<open>externalLinks\<close> with.
\<close>

fun after_scheme :: "string \<Rightarrow> string" where
  "after_scheme [] = []"
| "after_scheme (c # cs) = (if startsWith (c # cs) ''://'' then drop 3 (c # cs) else after_scheme cs)"

definition spec_host :: "string \<Rightarrow> string" where
  "spec_host u =
     takeWhile (\<lambda>c. c \<noteq> CHR ''/'' \<and> c \<noteq> CHR ''?'' \<and> c \<noteq> CHR ''#'') (after_scheme u)"

definition spec_crossHostLinks :: "string \<Rightarrow> string list \<Rightarrow> nat" where
  "spec_crossHostLinks u hrefs = length (filter (\<lambda>href. spec_host href \<noteq> spec_host u) hrefs)"

subsection \<open>Example pages\<close>

text \<open>
  A page with the given body text, meta description, \<^verbatim>\<open>meta[name="date"]\<close> content and
  anchors with the given absolute \<^verbatim>\<open>href\<close>s, and nothing else: every other selector
  selects no element.
\<close>

definition example_page ::
  "string \<Rightarrow> string option \<Rightarrow> string option \<Rightarrow> string list \<Rightarrow> cheerio" where
  \<open>example_page body description date hrefs =
     \<lparr>sel_length = (\<lambda>sel. if sel = ''a[href^='http']'' then length hrefs else 0),
      sel_text = (\<lambda>sel. if sel = ''body'' then body else []),
      sel_attr = (\<lambda>sel name.
        if sel = ''meta[name="description"]'' \<and> name = ''content'' then description
        else if sel = ''meta[name="date"]'' \<and> name = ''content'' then date
        else None),
      sel_each_attr = (\<lambda>sel name.
        if sel = ''a[href^='http']'' \<and> name = ''href'' then map Some hrefs else [])\<rparr>\<close>

text \<open>A parser that returns the given page for every input.\<close>

definition load_page :: "cheerio \<Rightarrow> string \<Rightarrow> cheerio" where
  "load_page page data = page"

text \<open>
  A clock that reads 2 November 2026, 12:00 UTC, with a date parser that knows one date,
  15 October 2026, and takes every other string for an invalid date.
\<close>

definition example_clock :: clock where
  "example_clock =
     \<lparr>Date_parse = (\<lambda>s. if s = ''2026-10-15'' then Some 1792022400000 else None),
      now_time = 1793620800000,
      now_year = 2026\<rparr>"

text \<open>The same clock half a year later, on 2 May 2027, 12:00 UTC.\<close>

definition later_clock :: clock where
  "later_clock = example_clock\<lparr>now_time := 1809259200000, now_year := 2027\<rparr>"

definition example_url :: string where
  "example_url = ''https://example.com/post''"

text \<open>
  A runtime in which the body \<^verbatim>\<open>{"url":"https://example.com/post"}\<close> is the only
  JSON text, every string that starts with \<^verbatim>\<open>https://\<close> is a URL, and every request
  is answered by \<open>data\<close>, which parses to \<open>page\<close>.
\<close>

definition example_body :: string where
  \<open>example_body = ''{"url":"https://example.com/post"}''\<close>

definition example_env :: "string \<Rightarrow> cheerio \<Rightarrow> env" where
  "example_env data page =
     \<lparr>JSON_parse = (\<lambda>s. if s = example_body then Some (Obj [(''url'', Str example_url)])
                         else None),
      ToString = (\<lambda>v. []),
      URL_ok = (\<lambda>s. startsWith s ''https://''),
      axios_get = (\<lambda>s. Some (StringData data)),
      cheerio_load = load_page page,
      clock = example_clock\<rparr>"

text \<open>
  Six share links to another host, each with the URL of the page in its query, and six
  links to another page of the same host.
\<close>

definition share_links :: "string list" where
  "share_links = replicate 6 ''https://twitter.com/intent/tweet?url=https://example.com/post''"

definition same_host_links :: "string list" where
  "same_host_links = replicate 6 ''https://example.com/about''"

definition other_host_links :: "string list" where
  "other_host_links = replicate 6 ''https://arxiv.org/abs/1706.03762''"

section \<open>Properties\<close>

subsection \<open>Updates of one criterion\<close>

lemma load_page_apply [simp]: "load_page page data = page"
  by (simp add: load_page_def)

lemma score_add_score [simp]: "score (add_score n d c) = score c + n"
  by (simp add: add_score_def)

lemma max_add_score [simp]: "max' (add_score n d c) = max' c"
  by (simp add: add_score_def)

lemma details_add_score [simp]: "details (add_score n d c) = details c @ [d]"
  by (simp add: add_score_def)

lemma score_push_detail [simp]: "score (push_detail d c) = score c"
  by (simp add: push_detail_def)

lemma max_push_detail [simp]: "max' (push_detail d c) = max' c"
  by (simp add: push_detail_def)

lemma details_push_detail [simp]: "details (push_detail d c) = details c @ [d]"
  by (simp add: push_detail_def)

subsection \<open>The range of each evaluator\<close>

lemma structure_bounds:
  "0 \<le> score (structureAnalysis page text data) \<and> score (structureAnalysis page text data) \<le> 10
   \<and> max' (structureAnalysis page text data) = 10"
  by (simp add: structureAnalysis_def Let_def)

lemma author_bounds:
  "0 \<le> score (authorAnalysis page text) \<and> score (authorAnalysis page text) \<le> 8
   \<and> max' (authorAnalysis page text) = 8"
  by (simp add: authorAnalysis_def Let_def)

lemma metadata_bounds:
  "0 \<le> score (metadataAnalysis page html) \<and> score (metadataAnalysis page html) \<le> 8
   \<and> max' (metadataAnalysis page html) = 8"
  by (simp add: metadataAnalysis_def Let_def)

lemma keywords_bounds:
  "0 \<le> score (keywordsAnalysis text) \<and> score (keywordsAnalysis text) \<le> 8
   \<and> max' (keywordsAnalysis text) = 8"
  by (simp add: keywordsAnalysis_def Let_def)

lemma tone_bounds:
  "0 \<le> score (toneAnalysis text) \<and> score (toneAnalysis text) \<le> 6
   \<and> max' (toneAnalysis text) = 6"
  by (simp add: toneAnalysis_def Let_def)

lemma credibility_bounds:
  "0 \<le> score (credibilityAnalysis text) \<and> score (credibilityAnalysis text) \<le> 15
   \<and> max' (credibilityAnalysis text) = 15"
  by (simp add: credibilityAnalysis_def Let_def)

lemma readability_bounds:
  "0 \<le> score (readabilityAnalysis plainText text)
   \<and> score (readabilityAnalysis plainText text) \<le> 15
   \<and> max' (readabilityAnalysis plainText text) = 15"
  by (simp add: readabilityAnalysis_def Let_def)

lemma comprehensiveness_bounds:
  "0 \<le> score (comprehensivenessAnalysis wc text)
   \<and> score (comprehensivenessAnalysis wc text) \<le> 10
   \<and> max' (comprehensivenessAnalysis wc text) = 10"
  by (simp add: comprehensivenessAnalysis_def Let_def)

lemma citations_bounds:
  "0 \<le> score (citationsAnalysis page u text) \<and> score (citationsAnalysis page u text) \<le> 10
   \<and> max' (citationsAnalysis page u text) = 10"
  by (simp add: citationsAnalysis_def Let_def)

subsection \<open>Freshness, block by block\<close>

lemma dateFromMeta_none: "\<not> truthy_str pd \<Longrightarrow> dateFromMeta clk pd = (0, False)"
  by (simp add: dateFromMeta_def truthy_str_def split: option.splits)

lemma dateFromMeta_invalid:
  "d \<noteq> [] \<Longrightarrow> Date_parse clk d = None \<Longrightarrow> dateFromMeta clk (Some d) = (0, True)"
  by (simp add: dateFromMeta_def monthsAgo_def)

lemma dateFromMeta_range: "fst (dateFromMeta clk pd) \<in> {0, 2, 4, 6, 8, 10}"
  by (simp add: dateFromMeta_def Let_def split: option.splits)

lemma dateFromText_found: "dateFromText clk text (s, True) = (s, True)"
  by (simp add: dateFromText_def)

lemma dateFromText_not_found:
  "dateFromText clk text (s, False) =
     (if str_includes text (int_toString (now_year clk)) then (6, True)
      else if str_includes text (int_toString (now_year clk - 1)) then (4, True)
      else (s, False))"
  by (simp add: dateFromText_def Let_def)

lemma dateFromText_range:
  "s \<in> {0, 2, 4, 6, 8, 10} \<Longrightarrow> fst (dateFromText clk text (s, f)) \<in> {0, 2, 4, 6, 8, 10}"
  by (cases f) (auto simp: dateFromText_found dateFromText_not_found)

lemma freshness_score:
  "score (freshnessAnalysis clk pd text) =
     (let dateScore0 = fst (dateFromText clk text (dateFromMeta clk pd))
      in if count_included text recencySignals \<ge> 2 then min 10 (dateScore0 + 2) else dateScore0)"
  by (simp add: freshnessAnalysis_def Let_def split: prod.splits)

lemma freshness_max: "max' (freshnessAnalysis clk pd text) = 10"
  by (simp add: freshnessAnalysis_def Let_def split: prod.splits)

lemma freshness_bounds:
  "0 \<le> score (freshnessAnalysis clk pd text) \<and> score (freshnessAnalysis clk pd text) \<le> 10
   \<and> max' (freshnessAnalysis clk pd text) = 10"
proof -
  obtain s f where sf: "dateFromMeta clk pd = (s, f)"
    by (cases "dateFromMeta clk pd")
  have "s \<in> {0, 2, 4, 6, 8, 10}"
    using dateFromMeta_range [of clk pd] sf by simp
  then have "fst (dateFromText clk text (s, f)) \<in> {0, 2, 4, 6, 8, 10}"
    by (rule dateFromText_range)
  then show ?thesis
    unfolding freshness_score freshness_max sf Let_def by auto
qed

subsection \<open>The criteria of an analysis\<close>

lemma criteria_analyze:
  "criteria (analyze clk load u us data) = evaluate clk (load data) us data"
  by (simp add: analyze_def Let_def)

lemma evaluate_fields:
  "structure (evaluate clk page us data) =
     structureAnalysis page (toLowerCase (sel_text page ''body'')) data"
  "author (evaluate clk page us data) = authorAnalysis page (toLowerCase (sel_text page ''body''))"
  "metadata (evaluate clk page us data) = metadataAnalysis page (toLowerCase data)"
  "keywords (evaluate clk page us data) = keywordsAnalysis (toLowerCase (sel_text page ''body''))"
  "tone (evaluate clk page us data) = toneAnalysis (toLowerCase (sel_text page ''body''))"
  "credibility (evaluate clk page us data) =
     credibilityAnalysis (toLowerCase (sel_text page ''body''))"
  "readability (evaluate clk page us data) =
     readabilityAnalysis (sel_text page ''body'') (toLowerCase (sel_text page ''body''))"
  "freshness (evaluate clk page us data) =
     freshnessAnalysis clk (publishDate_of page) (toLowerCase (sel_text page ''body''))"
  "comprehensiveness (evaluate clk page us data) =
     comprehensivenessAnalysis (countWords (sel_text page ''body''))
       (toLowerCase (sel_text page ''body''))"
  "citations (evaluate clk page us data) =
     citationsAnalysis page us (toLowerCase (sel_text page ''body''))"
  by (simp_all add: evaluate_def Let_def)

lemma evaluate_bounds:
  "(let cr = evaluate clk page us data in
      (0 \<le> score (structure cr) \<and> score (structure cr) \<le> 10)
    \<and> (0 \<le> score (author cr) \<and> score (author cr) \<le> 8)
    \<and> (0 \<le> score (metadata cr) \<and> score (metadata cr) \<le> 8)
    \<and> (0 \<le> score (keywords cr) \<and> score (keywords cr) \<le> 8)
    \<and> (0 \<le> score (tone cr) \<and> score (tone cr) \<le> 6)
    \<and> (0 \<le> score (credibility cr) \<and> score (credibility cr) \<le> 15)
    \<and> (0 \<le> score (readability cr) \<and> score (readability cr) \<le> 15)
    \<and> (0 \<le> score (freshness cr) \<and> score (freshness cr) \<le> 10)
    \<and> (0 \<le> score (comprehensiveness cr) \<and> score (comprehensiveness cr) \<le> 10)
    \<and> (0 \<le> score (citations cr) \<and> score (citations cr) \<le> 10)
    \<and> map max' (values_of cr) = [10, 8, 8, 8, 6, 15, 15, 10, 10, 10])"
  unfolding Let_def values_of_def evaluate_fields
  using structure_bounds author_bounds metadata_bounds keywords_bounds tone_bounds
    credibility_bounds readability_bounds freshness_bounds comprehensiveness_bounds
    citations_bounds
  by simp

lemma sum_scores_eq:
  "sum_scores cr =
     score (structure cr) + score (author cr) + score (metadata cr) + score (keywords cr)
     + score (tone cr) + score (credibility cr) + score (readability cr) + score (freshness cr)
     + score (comprehensiveness cr) + score (citations cr)"
  by (simp add: sum_scores_def values_of_def)

lemma analyze_fields:
  "totalScore (analyze clk load u us data) = sum_scores (evaluate clk (load data) us data)"
  "maxScore (analyze clk load u us data) = 100"
  "percentage (analyze clk load u us data) =
     (real_of_int (sum_scores (evaluate clk (load data) us data)) / real_of_int 100) * 100"
  "recommendations (analyze clk load u us data) =
     generateRecommendations (evaluate clk (load data) us data)"
  "researchInsights (analyze clk load u us data) = researchInsights0"
  "url (analyze clk load u us data) = u"
  by (simp_all add: analyze_def Let_def)

subsection \<open>Score bounds\<close>

text \<open>
  Claim C1. For every fetched document, each of the ten criteria of the returned analysis
  has a score between 0 and its maximum, and the maximum is the constant of the criterion:
  structure 10, author 8, metadata 8, keywords 8, tone 6, credibility 15, readability 15,
  freshness 10, comprehensiveness 10, citations 10, whatever the document, the URL and the
  clock are.
\<close>

theorem scores_within_bounds:
  "(let cr = criteria (analyze clk load u us data) in
      (0 \<le> score (structure cr) \<and> score (structure cr) \<le> max' (structure cr))
    \<and> (0 \<le> score (author cr) \<and> score (author cr) \<le> max' (author cr))
    \<and> (0 \<le> score (metadata cr) \<and> score (metadata cr) \<le> max' (metadata cr))
    \<and> (0 \<le> score (keywords cr) \<and> score (keywords cr) \<le> max' (keywords cr))
    \<and> (0 \<le> score (tone cr) \<and> score (tone cr) \<le> max' (tone cr))
    \<and> (0 \<le> score (credibility cr) \<and> score (credibility cr) \<le> max' (credibility cr))
    \<and> (0 \<le> score (readability cr) \<and> score (readability cr) \<le> max' (readability cr))
    \<and> (0 \<le> score (freshness cr) \<and> score (freshness cr) \<le> max' (freshness cr))
    \<and> (0 \<le> score (comprehensiveness cr)
         \<and> score (comprehensiveness cr) \<le> max' (comprehensiveness cr))
    \<and> (0 \<le> score (citations cr) \<and> score (citations cr) \<le> max' (citations cr))
    \<and> map max' (values_of cr) = [10, 8, 8, 8, 6, 15, 15, 10, 10, 10])"
  using evaluate_bounds [of clk "load data" us data]
  unfolding Let_def criteria_analyze values_of_def
  by simp

subsection \<open>Aggregation\<close>


subsection \<open>Recommendations\<close>

lemma advice_distinct:
  "distinct [structureAdvice, authorAdvice, metadataAdvice, keywordsAdvice, toneAdvice,
     credibilityAdvice, readabilityAdvice, freshnessAdvice, comprehensivenessAdvice,
     citationsAdvice]"
  by (simp add: structureAdvice_def authorAdvice_def metadataAdvice_def keywordsAdvice_def
      toneAdvice_def credibilityAdvice_def readabilityAdvice_def freshnessAdvice_def
      comprehensivenessAdvice_def citationsAdvice_def)

lemma mem_push_if: "x \<in> set (push_if b s rs) \<longleftrightarrow> (b \<and> x = s) \<or> x \<in> set rs"
  by (auto simp add: push_if_def)

lemma mem_generateRecommendations:
  "x \<in> set (generateRecommendations cr) \<longleftrightarrow>
     (score (structure cr) < 7 \<and> x = structureAdvice)
   \<or> (score (author cr) < 5 \<and> x = authorAdvice)
   \<or> (score (metadata cr) < 5 \<and> x = metadataAdvice)
   \<or> (score (keywords cr) < 5 \<and> x = keywordsAdvice)
   \<or> (score (tone cr) < 4 \<and> x = toneAdvice)
   \<or> (score (credibility cr) < 8 \<and> x = credibilityAdvice)
   \<or> (score (readability cr) < 8 \<and> x = readabilityAdvice)
   \<or> (score (freshness cr) < 5 \<and> x = freshnessAdvice)
   \<or> (score (comprehensiveness cr) < 5 \<and> x = comprehensivenessAdvice)
   \<or> (score (citations cr) < 5 \<and> x = citationsAdvice)"
  unfolding generateRecommendations_def Let_def mem_push_if by auto

lemma advice_iff:
  "structureAdvice \<in> set (generateRecommendations cr) \<longleftrightarrow> score (structure cr) < 7"
  "authorAdvice \<in> set (generateRecommendations cr) \<longleftrightarrow> score (author cr) < 5"
  "metadataAdvice \<in> set (generateRecommendations cr) \<longleftrightarrow> score (metadata cr) < 5"
  "keywordsAdvice \<in> set (generateRecommendations cr) \<longleftrightarrow> score (keywords cr) < 5"
  "toneAdvice \<in> set (generateRecommendations cr) \<longleftrightarrow> score (tone cr) < 4"
  "credibilityAdvice \<in> set (generateRecommendations cr) \<longleftrightarrow> score (credibility cr) < 8"
  "readabilityAdvice \<in> set (generateRecommendations cr) \<longleftrightarrow> score (readability cr) < 8"
  "freshnessAdvice \<in> set (generateRecommendations cr) \<longleftrightarrow> score (freshness cr) < 5"
  "comprehensivenessAdvice \<in> set (generateRecommendations cr)
     \<longleftrightarrow> score (comprehensiveness cr) < 5"
  "citationsAdvice \<in> set (generateRecommendations cr) \<longleftrightarrow> score (citations cr) < 5"
  using advice_distinct unfolding mem_generateRecommendations by auto

text \<open>
  Claim C6. For every fetched document and each of the ten criteria, the recommendations
  of the returned analysis contain the advisory string of the criterion if and only if
  the score of the criterion is below its threshold: structure 7, author 5, metadata 5,
  keywords 5, tone 4, credibility 8, readability 8, freshness 5, comprehensiveness 5,
  citations 5.
\<close>

theorem recommendation_iff_below_threshold:
  "(let a = analyze clk load u us data; cr = criteria a; rs = set (recommendations a) in
      (structureAdvice \<in> rs \<longleftrightarrow> score (structure cr) < 7)
    \<and> (authorAdvice \<in> rs \<longleftrightarrow> score (author cr) < 5)
    \<and> (metadataAdvice \<in> rs \<longleftrightarrow> score (metadata cr) < 5)
    \<and> (keywordsAdvice \<in> rs \<longleftrightarrow> score (keywords cr) < 5)
    \<and> (toneAdvice \<in> rs \<longleftrightarrow> score (tone cr) < 4)
    \<and> (credibilityAdvice \<in> rs \<longleftrightarrow> score (credibility cr) < 8)
    \<and> (readabilityAdvice \<in> rs \<longleftrightarrow> score (readability cr) < 8)
    \<and> (freshnessAdvice \<in> rs \<longleftrightarrow> score (freshness cr) < 5)
    \<and> (comprehensivenessAdvice \<in> rs \<longleftrightarrow> score (comprehensiveness cr) < 5)
    \<and> (citationsAdvice \<in> rs \<longleftrightarrow> score (citations cr) < 5))"
  unfolding Let_def analyze_fields criteria_analyze
  by (intro conjI advice_iff)

subsection \<open>Metadata\<close>

lemma metadata_score:
  "score (metadataAnalysis page html) =
     (if length (sel_text page ''title'') > 10 then 2 else 0)
   + (if length (meta_description page) > 50 then 3 else 0)
   + (if truthy_str (publishDate_of page) then 2 else 0)
   + (if str_includes html ''schema.org'' \<or> str_includes html ''application/ld+json''
      then 1 else 0)"
  by (auto simp add: metadataAnalysis_def Let_def)

lemma metadata_details:
  "details (metadataAnalysis page html) =
     [if length (sel_text page ''title'') > 10
      then tick @ '' Descriptive title present'' else cross @ '' Missing or poor title'',
      if length (meta_description page) > 50
      then tick @ '' Good meta description'' else cross @ '' Missing or poor meta description'',
      if truthy_str (publishDate_of page)
      then tick @ '' Publication date found'' else cross @ '' No publication date'',
      if str_includes html ''schema.org'' \<or> str_includes html ''application/ld+json''
      then tick @ '' Structured data present'' else cross @ '' No structured data'']"
  by (auto simp add: metadataAnalysis_def Let_def)

lemma meta_description_length:
  \<open>length (meta_description page) > 50 \<longleftrightarrow>
     (case sel_attr page ''meta[name="description"]'' ''content'' of
        None \<Rightarrow> False | Some d \<Rightarrow> length d > 50)\<close>
  by (simp add: meta_description_def or_str_def split: option.splits)

text \<open>
  Claim C8. For every fetched document, the metadata score is the sum of four bonuses, of
  which the one for the meta description is 3 exactly when the page has a meta description
  of more than 50 characters, and the finding for a good description is recorded in
  exactly that case. So a description of 51 characters earns the bonus and one of 50
  characters does not.
\<close>

theorem description_bonus_iff_longer_than_50:
  \<open>(let page = load data;
        m = metadata (criteria (analyze clk load u us data));
        bonus = (case sel_attr page ''meta[name="description"]'' ''content'' of
                   None \<Rightarrow> False | Some d \<Rightarrow> length d > 50)
    in score m =
         (if length (sel_text page ''title'') > 10 then 2 else 0)
       + (if bonus then 3 else 0)
       + (if truthy_str (publishDate_of page) then 2 else 0)
       + (if str_includes (toLowerCase data) ''schema.org''
             \<or> str_includes (toLowerCase data) ''application/ld+json'' then 1 else 0)
     \<and> (tick @ '' Good meta description'' \<in> set (details m) \<longleftrightarrow> bonus)
     \<and> (cross @ '' Missing or poor meta description'' \<in> set (details m) \<longleftrightarrow> \<not> bonus))\<close>
  unfolding Let_def criteria_analyze evaluate_fields metadata_score metadata_details
    meta_description_length [symmetric]
  by (simp add: tick_def cross_def)

text \<open>
  The theorem at two pages that differ in their description only: 51 characters score 3,
  50 characters score 0.
\<close>

theorem description_bonus_witness:
  "score (metadata (criteria (analyze example_clock
      (load_page (example_page [] (Some (replicate 51 CHR ''a'')) None []))
      (Str example_url) example_url []))) = 3
   \<and> score (metadata (criteria (analyze example_clock
      (load_page (example_page [] (Some (replicate 50 CHR ''a'')) None []))
      (Str example_url) example_url []))) = 0"
  using
    description_bonus_iff_longer_than_50
      [of "load_page (example_page [] (Some (replicate 51 CHR ''a'')) None [])" "[]" example_clock
        "Str example_url" example_url]
    description_bonus_iff_longer_than_50
      [of "load_page (example_page [] (Some (replicate 50 CHR ''a'')) None [])" "[]" example_clock
        "Str example_url" example_url]
  by (simp add: Let_def example_page_def publishDate_of_def or_else_def truthy_str_def
      toLowerCase_def)

subsection \<open>Freshness\<close>

lemma freshness_details_found:
  assumes "dateFromText clk text (dateFromMeta clk pd) = (s0, True)"
    and "(if count_included text recencySignals \<ge> 2 then min 10 (s0 + 2) else s0) < 4"
  shows "last (details (freshnessAnalysis clk pd text)) = cross @ '' Content may be outdated''"
  using assms(2) unfolding freshnessAnalysis_def assms(1) Let_def
  by (auto split: if_splits)

text \<open>
  Claim C7. For every fetched document without a publish date in its markup, the freshness
  score before the recency bonus is 6 if the lower-case text contains the current year, 4
  if it contains the previous year and not the current one, and 0 otherwise; if at least
  two of the recency words occur in the text, 2 points are added and the sum is capped at
  10, and that is the freshness score.
\<close>

theorem freshness_without_publish_date:
  "\<not> truthy_str (publishDate_of (load data)) \<Longrightarrow>
   (let page = load data;
        text = toLowerCase (sel_text page ''body'');
        base = (if str_includes text (int_toString (now_year clk)) then 6
                else if str_includes text (int_toString (now_year clk - 1)) then 4
                else 0)
    in fst (dateFromText clk text (dateFromMeta clk (publishDate_of page))) = base
     \<and> score (freshness (criteria (analyze clk load u us data))) =
         (if count_included text recencySignals \<ge> 2 then min 10 (base + 2) else base))"
  unfolding Let_def criteria_analyze evaluate_fields freshness_score
  by (simp add: dateFromMeta_none dateFromText_not_found)

text \<open>
  The theorem at a page that names the current year (score 6), and at a page that names
  the previous year and has two recency words (score 4 + 2).
\<close>

theorem freshness_without_publish_date_witness:
  "\<not> truthy_str (publishDate_of (example_page ''Copyright 2026'' None None []))
   \<and> score (freshness (criteria (analyze example_clock
        (load_page (example_page ''Copyright 2026'' None None [])) (Str example_url) example_url []))) = 6
   \<and> \<not> truthy_str (publishDate_of (example_page ''The LATEST update of 2025'' None None []))
   \<and> score (freshness (criteria (analyze example_clock
        (load_page (example_page ''The LATEST update of 2025'' None None []))
        (Str example_url) example_url []))) = 6"
proof -
  have a: "\<not> truthy_str (publishDate_of (example_page ''Copyright 2026'' None None []))"
    by (simp add: example_page_def publishDate_of_def or_else_def truthy_str_def)
  have b: "\<not> truthy_str (publishDate_of (example_page ''The LATEST update of 2025'' None None []))"
    by (simp add: example_page_def publishDate_of_def or_else_def truthy_str_def)
  have y: "int_toString 2026 = ''2026''" "int_toString 2025 = ''2025''"
    by code_simp+
  have t: "toLowerCase ''Copyright 2026'' = ''copyright 2026''"
    "toLowerCase ''The LATEST update of 2025'' = ''the latest update of 2025''"
    by code_simp+
  have r: "count_included ''copyright 2026'' recencySignals = 0"
    "count_included ''the latest update of 2025'' recencySignals = 2"
    by code_simp+
  have i: "str_includes ''copyright 2026'' ''2026''" "\<not> str_includes ''the latest update of 2025'' ''2026''"
    "str_includes ''the latest update of 2025'' ''2025''"
    by code_simp+
  have s: "sel_text (example_page body de da hs) ''body'' = body" for body de da hs
    by (simp add: example_page_def)
  have c: "now_year example_clock = 2026"
    by (simp add: example_clock_def)
  show ?thesis
    using a b
      freshness_without_publish_date
        [where load = "load_page (example_page ''Copyright 2026'' None None [])" and data = "[]"
           and clk = example_clock and u = "Str example_url" and us = example_url]
      freshness_without_publish_date
        [where load = "load_page (example_page ''The LATEST update of 2025'' None None [])"
           and data = "[]" and clk = example_clock and u = "Str example_url"
           and us = example_url]
    by (simp add: Let_def s c y t r i)
qed

text \<open>
  Claim C9. If the markup has a publish date that does not parse as a date, the date
  still counts as found: the months elapsed are NaN, the step function gives 0 points, the
  years in the text are not looked at, and the freshness score is the recency bonus alone,
  so at most 2; the finding is that the content may be outdated.
\<close>

theorem freshness_with_invalid_date:
  "publishDate_of (load data) = Some d \<Longrightarrow> d \<noteq> [] \<Longrightarrow> Date_parse clk d = None \<Longrightarrow>
   (let page = load data;
        text = toLowerCase (sel_text page ''body'');
        f = freshness (criteria (analyze clk load u us data))
    in monthsAgo clk d = NaN
     \<and> dateFromMeta clk (publishDate_of page) = (0, True)
     \<and> dateFromText clk text (dateFromMeta clk (publishDate_of page)) = (0, True)
     \<and> score f = (if count_included text recencySignals \<ge> 2 then 2 else 0)
     \<and> score f \<le> 2
     \<and> last (details f) = cross @ '' Content may be outdated'')"
proof -
  assume pd: "publishDate_of (load data) = Some d" and d: "d \<noteq> []"
    and inv: "Date_parse clk d = None"
  let ?text = "toLowerCase (sel_text (load data) ''body'')"
  have m: "dateFromMeta clk (Some d) = (0, True)"
    using d inv by (rule dateFromMeta_invalid)
  have t: "dateFromText clk ?text (dateFromMeta clk (Some d)) = (0, True)"
    unfolding m by (rule dateFromText_found)
  have s: "score (freshnessAnalysis clk (Some d) ?text) =
      (if count_included ?text recencySignals \<ge> 2 then 2 else 0)"
    unfolding freshness_score t Let_def by simp
  have l: "last (details (freshnessAnalysis clk (Some d) ?text)) = cross @ '' Content may be outdated''"
    by (rule freshness_details_found [OF t]) simp
  show ?thesis
    unfolding Let_def criteria_analyze evaluate_fields pd
    using m t s l by (simp add: monthsAgo_def inv)
qed

text \<open>
  The theorem at a page whose date is \<^verbatim>\<open>last week\<close> and whose text names the current
  year: the score is 0, not 6.
\<close>

theorem freshness_with_invalid_date_witness:
  "publishDate_of (example_page ''Copyright 2026'' None (Some ''last week'') []) = Some ''last week''
   \<and> Date_parse example_clock ''last week'' = None
   \<and> str_includes (toLowerCase ''Copyright 2026'') (int_toString (now_year example_clock))
   \<and> score (freshness (criteria (analyze example_clock
        (load_page (example_page ''Copyright 2026'' None (Some ''last week'') []))
        (Str example_url) example_url []))) = 0"
proof -
  have a: "publishDate_of (example_page ''Copyright 2026'' None (Some ''last week'') []) = Some ''last week''"
    by (simp add: example_page_def publishDate_of_def or_else_def truthy_str_def)
  have b: "''last week'' \<noteq> []" by simp
  have c: "Date_parse example_clock ''last week'' = None"
    by (simp add: example_clock_def)
  have y: "int_toString 2026 = ''2026''" by code_simp
  have t: "toLowerCase ''Copyright 2026'' = ''copyright 2026''" by code_simp
  have r: "count_included ''copyright 2026'' recencySignals = 0" by code_simp
  have i: "str_includes ''copyright 2026'' ''2026''" by code_simp
  have s: "sel_text (example_page body de da hs) ''body'' = body" for body de da hs
    by (simp add: example_page_def)
  have n: "now_year example_clock = 2026"
    by (simp add: example_clock_def)
  show ?thesis
    using a b c
      freshness_with_invalid_date
        [where load = "load_page (example_page ''Copyright 2026'' None (Some ''last week'') [])"
           and data = "[]" and d = "''last week''" and clk = example_clock
           and u = "Str example_url" and us = example_url]
    by (simp add: Let_def s n y t r i)
qed

subsection \<open>Readability of an empty text\<close>

lemma calculateReadability_empty: "calculateReadability [] = 0"
  by (simp add: calculateReadability_def Let_def trim_def str_split_def)

lemma countWords_empty: "countWords [] = 0"
  by (simp add: countWords_def trim_def str_split_def)

lemma sentences_empty:
  "length (filter (\<lambda>s. length (trim s) > 0) (str_split isSentenceEnd [])) = 0"
  by (simp add: trim_def str_split_def)

lemma str_includes_empty: "p \<noteq> [] \<Longrightarrow> \<not> str_includes [] p"
  by simp

lemma count_included_empty_transition: "count_included [] transitionWords = 0"
  by (simp add: count_included_def transitionWords_def)

lemma count_included_empty_passive: "count_included [] passiveVoiceMarkers = 0"
  by (simp add: count_included_def passiveVoiceMarkers_def)

lemma readability_empty:
  "readabilityAnalysis [] [] =
     \<lparr>score = 2, max' = 15,
      details =
        [cross @ '' Complex readability (college level or higher)'',
         cross @ '' Sentences may be too long'',
         cross @ '' No transition words found'',
         cross @ '' Excessive passive voice'']\<rparr>"
  unfolding readabilityAnalysis_def Let_def calculateReadability_empty countWords_empty
    sentences_empty count_included_empty_transition count_included_empty_passive
  by (simp add: div_num_def add_score_def push_detail_def)

text \<open>The one path of the handler on which a page is analysed.\<close>

lemma POST_fetched_page:
  assumes "request_json env body = Some v" and "destructure_url v = Some uv" and "truthy uv"
    and "URL_ok env (url_string env uv)"
    and "axios_get env (url_string env uv) = Some (StringData data)"
  shows "POST env body =
     \<lparr>response =
        Json_result (analyze (clock env) (cheerio_load env) uv (url_string env uv) data),
      fetched = [url_string env uv]\<rparr>"
  using assms by (simp add: POST_def)

text \<open>
  Claim C10. When the handler fetches a page whose body text is empty, it returns an
  analysis all the same. There are no words and no sentences, \<open>calculateReadability\<close>
  returns 0, the average sentence length and the active-voice ratio are NaN (their
  divisors are zero), so their checks fall through to the last branch, and the
  readability criterion scores 2 of 15: 1 for the complex-readability branch and 1 for the
  sentence-length branch.
\<close>

theorem empty_text_readability:
  assumes "request_json env body = Some v" and "destructure_url v = Some uv" and "truthy uv"
    and "URL_ok env (url_string env uv)"
    and "axios_get env (url_string env uv) = Some (StringData data)"
    and "sel_text (cheerio_load env data) ''body'' = []"
  shows
    "(let plainText = sel_text (cheerio_load env data) ''body'';
          text = toLowerCase plainText;
          a = analyze (clock env) (cheerio_load env) uv (url_string env uv) data;
          r = readability (criteria a);
          wordCount = countWords plainText;
          sentenceCount =
            length (filter (\<lambda>s. length (trim s) > 0) (str_split isSentenceEnd plainText))
      in response (POST env body) = Json_result a
       \<and> wordCount = 0 \<and> sentenceCount = 0
       \<and> calculateReadability plainText = 0
       \<and> div_num (real wordCount) (real sentenceCount) = NaN
       \<and> sub_num 1 (div_num (real (count_included text passiveVoiceMarkers))
            (real wordCount / 10)) = NaN
       \<and> r = \<lparr>score = 2, max' = 15,
               details =
                 [cross @ '' Complex readability (college level or higher)'',
                  cross @ '' Sentences may be too long'',
                  cross @ '' No transition words found'',
                  cross @ '' Excessive passive voice'']\<rparr>
       \<and> 0 \<le> score r \<and> score r \<le> max' r)"
proof -
  have p: "response (POST env body) =
      Json_result (analyze (clock env) (cheerio_load env) uv (url_string env uv) data)"
    using POST_fetched_page [OF assms(1-5)] by simp
  show ?thesis
    unfolding Let_def criteria_analyze evaluate_fields assms(6) p
    by (simp add: toLowerCase_def readability_empty calculateReadability_empty countWords_empty
        sentences_empty count_included_empty_passive div_num_def trim_def str_split_def)
qed

text \<open>The theorem at the example runtime, with an empty page.\<close>

theorem empty_text_readability_witness:
  "request_json (example_env [] (example_page [] None None [])) example_body
     = Some (Obj [(''url'', Str example_url)])
   \<and> sel_text (cheerio_load (example_env [] (example_page [] None None [])) []) ''body'' = []
   \<and> response (POST (example_env [] (example_page [] None None [])) example_body) =
       Json_result (analyze example_clock (load_page (example_page [] None None []))
         (Str example_url) example_url [])
   \<and> score (readability (criteria (analyze example_clock (load_page (example_page [] None None []))
         (Str example_url) example_url []))) = 2"
proof -
  let ?env = "example_env [] (example_page [] None None [])"
  have 1: "request_json ?env example_body = Some (Obj [(''url'', Str example_url)])"
    by (simp add: request_json_def example_env_def example_body_def)
  have 2: "destructure_url (Obj [(''url'', Str example_url)]) = Some (Str example_url)"
    by (simp add: destructure_url_def)
  have 3: "truthy (Str example_url)"
    by (simp add: example_url_def)
  have u: "url_string ?env (Str example_url) = example_url"
    by (simp add: url_string_def)
  have 4: "URL_ok ?env (url_string ?env (Str example_url))"
    unfolding u by (simp add: example_env_def example_url_def)
  have 5: "axios_get ?env (url_string ?env (Str example_url)) = Some (StringData [])"
    by (simp add: example_env_def)
  have 6: "sel_text (cheerio_load ?env []) ''body'' = []"
    by (simp add: example_env_def example_page_def)
  have c: "clock ?env = example_clock" "cheerio_load ?env = (load_page (example_page [] None None []))"
    by (simp_all add: example_env_def)
  show ?thesis
    using 1 6 empty_text_readability [OF 1 2 3 4 5 6]
    by (simp add: Let_def u c)
qed

subsection \<open>Citations\<close>

lemma citations_score:
  "score (citationsAnalysis page us text) =
     (if externalLinks page us \<ge> 5 then 4 else if externalLinks page us \<ge> 2 then 2 else 0)
   + (if count_included text formalCitationPatterns \<ge> 2 then 3 else 0)
   + (if quote_matches text \<ge> 6 then 3 else if quote_matches text \<ge> 2 then 1 else 0)"
  by (auto simp add: citationsAnalysis_def Let_def)

lemma citations_max: "max' (citationsAnalysis page us text) = 10"
  by (simp add: citationsAnalysis_def Let_def)

lemma externalLinks_filter:
  \<open>externalLinks page us =
     length (filter (\<lambda>href. \<not> str_includes href us)
       (map (\<lambda>this. or_str this []) (sel_each_attr page ''a[href^='http']'' ''href'')))\<close>
  by (simp add: externalLinks_def Let_def filter_map comp_def)

lemma externalLinks_example:
  "externalLinks (example_page body de da hrefs) us =
     length (filter (\<lambda>href. \<not> str_includes (or_str (Some href) []) us) hrefs)"
  by (simp add: externalLinks_def example_page_def Let_def filter_map comp_def)

lemma example_page_body: "sel_text (example_page body de da hrefs) ''body'' = body"
  by (simp add: example_page_def)

lemma no_phrase_in_empty_text:
  "count_included [] formalCitationPatterns = 0" "quote_matches [] = 0"
  by (simp_all add: count_included_def formalCitationPatterns_def quote_matches_def)

lemma externalLinks_share: "externalLinks (example_page [] None None share_links) example_url = 0"
  unfolding externalLinks_example share_links_def example_url_def or_str_def
  by code_simp

lemma externalLinks_same_host:
  "externalLinks (example_page [] None None same_host_links) example_url = 6"
  unfolding externalLinks_example same_host_links_def example_url_def or_str_def
  by code_simp

lemma externalLinks_other_host:
  "externalLinks (example_page [] None None other_host_links) example_url = 6"
  unfolding externalLinks_example other_host_links_def example_url_def or_str_def
  by code_simp

lemma spec_crossHostLinks_examples:
  "spec_crossHostLinks example_url share_links = 6"
  "spec_crossHostLinks example_url same_host_links = 0"
  "spec_crossHostLinks example_url other_host_links = 6"
  by code_simp+




subsection \<open>Dependence on the clock\<close>


lemma clock_eqI:
  "Date_parse clk1 = Date_parse clk2 \<Longrightarrow> now_time clk1 = now_time clk2 \<Longrightarrow>
   now_year clk1 = now_year clk2 \<Longrightarrow> clk1 = (clk2 :: clock)"
  by simp



subsection \<open>Requests that are not analysed\<close>

lemma status_analysis_failed: "status analysis_failed = 500"
  by (simp add: status_def analysis_failed_def)

text \<open>
  Claim C5 says that a request with an empty body is answered with status 400 before any
  fetch. In the handler \<^verbatim>\<open>request.json()\<close> is called inside the outer
  \<^verbatim>\<open>try\<close>; on an empty body it throws, and the \<^verbatim>\<open>catch\<close> answers with status 500
  and the message for a failed analysis. No fetch is made.
\<close>

theorem empty_body_gets_500:
  "POST env [] =
     \<lparr>response =
        Json_error ''Failed to analyze the webpage. Please check the URL and try again.'' 500,
      fetched = []\<rparr>
   \<and> status (response (POST env [])) = 500
   \<and> fetched (POST env []) = []"
  by (simp add: POST_def request_json_def analysis_failed_def status_def)

text \<open>
  The same holds for every body that is not JSON and for the body \<^verbatim>\<open>null\<close>. A
  missing or falsy \<^verbatim>\<open>url\<close> and a URL that does not parse are answered with status
  400, and a fetch is made only for a URL that passed both checks.
\<close>

lemma POST_unparsable_body:
  "request_json env body = None \<Longrightarrow>
   POST env body = \<lparr>response = analysis_failed, fetched = []\<rparr>"
  by (simp add: POST_def)

lemma POST_null_body:
  "request_json env body = Some Null \<Longrightarrow>
   POST env body = \<lparr>response = analysis_failed, fetched = []\<rparr>"
  by (simp add: POST_def destructure_url_def)

lemma POST_missing_url:
  "request_json env body = Some v \<Longrightarrow> destructure_url v = Some uv \<Longrightarrow> \<not> truthy uv \<Longrightarrow>
   POST env body = \<lparr>response = Json_error ''URL is required'' 400, fetched = []\<rparr>"
  by (simp add: POST_def)

lemma POST_invalid_url:
  "request_json env body = Some v \<Longrightarrow> destructure_url v = Some uv \<Longrightarrow> truthy uv \<Longrightarrow>
   \<not> URL_ok env (url_string env uv) \<Longrightarrow>
   POST env body = \<lparr>response = Json_error ''Invalid URL format'' 400, fetched = []\<rparr>"
  by (simp add: POST_def)

lemma POST_fetches_valid_url_only:
  "fetched (POST env body) \<noteq> [] \<Longrightarrow>
   \<exists>v uv. request_json env body = Some v \<and> destructure_url v = Some uv \<and> truthy uv
     \<and> URL_ok env (url_string env uv) \<and> fetched (POST env body) = [url_string env uv]"
  by (auto simp add: POST_def split: option.splits if_splits response_data.splits)

lemma POST_result_is_analysis:
  "response (POST env body) = Json_result a \<Longrightarrow>
   \<exists>uv data. a = analyze (clock env) (cheerio_load env) uv (url_string env uv) data"
  by (auto simp add: POST_def analysis_failed_def
      split: option.splits if_splits response_data.splits)

end
